theory Spec2Isabelle
  imports Complex_Main "HOL-Library.Word" "HOL-Library.Sublist"
begin

section \<open>JavaScript values\<close>

text \<open>
  A JavaScript string is a sequence of UTF-16 code units; its \<open>length\<close> counts code
  units. The literals of \<open>src/index.ts\<close> are ASCII, so \<open>str\<close> turns such a literal
  into its code units.
\<close>

type_synonym code_unit = "16 word"

type_synonym jsstring = "code_unit list"

definition str :: "string \<Rightarrow> jsstring" where
  "str cs = map of_char cs"

text \<open>
  A number is a double: not-a-number, the two infinities, negative zero, or a finite
  value (\<open>Finite 0\<close> is positive zero). The guards only compare a number with \<open>0\<close> and
  ask whether it is \<open>NaN\<close>, so the finite values are kept as rationals.
\<close>

datatype number = NaN | PosInfinity | NegInfinity | NegZero | Finite rat

datatype primitive =
    Undefined
  | Null
  | Boolean bool
  | Number number
  | BigInt int
  | String jsstring
  | Symbol nat

text \<open>
  \<open>new Message(text, kind, stage)\<close> of the configuration library, with the three
  arguments as \<open>src/index.ts\<close> passes them.
\<close>

record message =
  msg_text :: string
  msg_kind :: string
  msg_stage :: string

definition Message :: "string \<Rightarrow> string \<Rightarrow> string \<Rightarrow> message" where
  "Message t k st = \<lparr>msg_text = t, msg_kind = k, msg_stage = st\<rparr>"

text \<open>Objects: a \<open>Message\<close>, a function, or any other object (named by a number).\<close>

datatype object = MessageObject message | Function nat | OtherObject nat

datatype jsvalue = Primitive primitive | Object object

text \<open>The \<open>typeof\<close> operator.\<close>

fun typeof :: "jsvalue \<Rightarrow> string" where
  "typeof (Primitive Undefined) = ''undefined''"
| "typeof (Primitive Null) = ''object''"
| "typeof (Primitive (Boolean b)) = ''boolean''"
| "typeof (Primitive (Number n)) = ''number''"
| "typeof (Primitive (BigInt i)) = ''bigint''"
| "typeof (Primitive (String s)) = ''string''"
| "typeof (Primitive (Symbol y)) = ''symbol''"
| "typeof (Object (Function f)) = ''function''"
| "typeof (Object (MessageObject m)) = ''object''"
| "typeof (Object (OtherObject a)) = ''object''"

text \<open>
  Equality of two numbers under \<open>===\<close>: \<open>NaN\<close> equals nothing, the two zeros are
  equal.
\<close>

fun number_equal :: "number \<Rightarrow> number \<Rightarrow> bool" where
  "number_equal NaN y = False"
| "number_equal x NaN = False"
| "number_equal NegZero y = (y = NegZero \<or> y = Finite 0)"
| "number_equal x NegZero = (x = Finite 0)"
| "number_equal x y = (x = y)"

text \<open>
  \<open>x === p\<close> where the right operand is a primitive, as it is at every \<open>===\<close> of the
  source (\<open>null\<close>, \<open>undefined\<close>, \<open>''\<close>, \<open>0\<close>, \<open>false\<close>): an object is never
  strictly equal to a primitive, and primitives of different types are not equal.
\<close>

fun strict_equals :: "jsvalue \<Rightarrow> primitive \<Rightarrow> bool" where
  "strict_equals (Object ob) q = False"
| "strict_equals (Primitive (Number x)) (Number y) = number_equal x y"
| "strict_equals (Primitive p) q = (p = q)"

text \<open>\<open>Number.isNaN(x)\<close>: \<open>x\<close> is of type number and is \<open>NaN\<close>.\<close>

fun Number_isNaN :: "jsvalue \<Rightarrow> bool" where
  "Number_isNaN (Primitive (Number NaN)) = True"
| "Number_isNaN x = False"

section \<open>Guards\<close>

definition isNull :: "jsvalue \<Rightarrow> bool" where
  "isNull x = strict_equals x Null"

definition isUndefined :: "jsvalue \<Rightarrow> bool" where
  "isUndefined x = strict_equals x Undefined"

definition isString :: "jsvalue \<Rightarrow> bool" where
  "isString x = (typeof x = ''string'')"

definition isNumber :: "jsvalue \<Rightarrow> bool" where
  "isNumber x = (typeof x = ''number'')"

definition isNil :: "jsvalue \<Rightarrow> bool" where
  "isNil x = (isNull x \<or> isUndefined x \<or> (isString x \<and> strict_equals x (String (str ''''))))"

definition isNotNil :: "jsvalue \<Rightarrow> bool" where
  "isNotNil x = (\<not> isNil x)"

definition isFalsy :: "jsvalue \<Rightarrow> bool" where
  "isFalsy x =
     (strict_equals x (Number (Finite 0)) \<or> Number_isNaN x
      \<or> strict_equals x (Boolean False) \<or> isNil x)"

definition isTruthy :: "jsvalue \<Rightarrow> bool" where
  "isTruthy x = (\<not> isFalsy x)"

section \<open>Regular expressions\<close>

text \<open>
  The two regular expression literals of the source, \<open>/^.{8,72}$/\<close> and
  \<open>/^[a-zA-Z0-9]+$/\<close>, are sequences of terms: the assertions \<open>^\<close> and \<open>$\<close> and
  an atom with a quantifier, where an atom is \<open>.\<close> or a class of character ranges.
  Neither literal has a flag: \<open>.\<close> matches every code unit but the four line
  terminators, \<open>^\<close> holds only at index 0 and \<open>$\<close> only at the end of the input.
\<close>

datatype atom = AnyChar | CharClass "(code_unit \<times> code_unit) list"

datatype regex_term = AssertStart | AssertEnd | Quantified atom nat "nat option"

type_synonym regexp = "regex_term list"

definition line_terminator :: "code_unit \<Rightarrow> bool" where
  "line_terminator c = (c = 0x000A \<or> c = 0x000D \<or> c = 0x2028 \<or> c = 0x2029)"

fun atom_matches :: "atom \<Rightarrow> code_unit \<Rightarrow> bool" where
  "atom_matches AnyChar c = (\<not> line_terminator c)"
| "atom_matches (CharClass ranges) c = list_ex (\<lambda>(lo, hi). lo \<le> c \<and> c \<le> hi) ranges"

text \<open>
  \<open>repeat_atom a lo hi k i s\<close>: the atom \<open>a\<close>, repeated at least \<open>lo\<close> and at most
  \<open>hi\<close> times (\<open>None\<close>: no upper bound), matches at index \<open>i\<close> where \<open>s\<close> is the
  rest of the input, and the continuation \<open>k\<close> matches what follows. Either one more
  code unit is consumed, or the repetition stops.
\<close>

fun repeat_atom ::
  "atom \<Rightarrow> nat \<Rightarrow> nat option \<Rightarrow> (nat \<Rightarrow> jsstring \<Rightarrow> bool) \<Rightarrow> nat \<Rightarrow> jsstring \<Rightarrow> bool" where
  "repeat_atom a lo hi k i [] = (lo = 0 \<and> k i [])"
| "repeat_atom a lo hi k i (c # s) =
     ((hi \<noteq> Some 0 \<and> atom_matches a c
        \<and> repeat_atom a (lo - 1) (map_option (\<lambda>h. h - 1) hi) k (i + 1) s)
      \<or> (lo = 0 \<and> k i (c # s)))"

fun match_terms :: "regexp \<Rightarrow> nat \<Rightarrow> jsstring \<Rightarrow> bool" where
  "match_terms [] i s = True"
| "match_terms (AssertStart # ts) i s = (i = 0 \<and> match_terms ts i s)"
| "match_terms (AssertEnd # ts) i s = (s = [] \<and> match_terms ts i s)"
| "match_terms (Quantified a lo hi # ts) i s = repeat_atom a lo hi (match_terms ts) i s"

text \<open>A match may start at any index of the input, tried from left to right.\<close>

fun search_from :: "regexp \<Rightarrow> nat \<Rightarrow> jsstring \<Rightarrow> bool" where
  "search_from r i [] = match_terms r i []"
| "search_from r i (c # s) = (match_terms r i (c # s) \<or> search_from r (i + 1) s)"

text \<open>
  \<open>regex.test(s)\<close> for a regular expression without the \<open>g\<close> and \<open>y\<close> flags: the
  search starts at index 0 and the expression keeps no state between calls.
\<close>

definition test :: "regexp \<Rightarrow> jsstring \<Rightarrow> bool" where
  "test r s = search_from r 0 s"

text \<open>\<open>/^.{8,72}$/\<close>\<close>

definition regex_8_72 :: regexp where
  "regex_8_72 = [AssertStart, Quantified AnyChar 8 (Some 72), AssertEnd]"

text \<open>\<open>/^[a-zA-Z0-9]+$/\<close>\<close>

definition regex_alphanumeric :: regexp where
  "regex_alphanumeric =
     [AssertStart,
      Quantified (CharClass [(of_char CHR ''a'', of_char CHR ''z''),
                             (of_char CHR ''A'', of_char CHR ''Z''),
                             (of_char CHR ''0'', of_char CHR ''9'')]) 1 None,
      AssertEnd]"

section \<open>Field validations\<close>

text \<open>
  The validators declare \<open>value: string\<close>. A cell is what reaches them: a string, or
  \<open>null\<close> or \<open>undefined\<close> when the caller goes around the declared type.
\<close>

datatype cell = CellString jsstring | CellNull | CellUndefined

fun cell_value :: "cell \<Rightarrow> jsvalue" where
  "cell_value (CellString s) = Primitive (String s)"
| "cell_value CellNull = Primitive Null"
| "cell_value CellUndefined = Primitive Undefined"

datatype error = TypeError

text \<open>\<open>String.prototype.includes\<close>: the search string occurs somewhere in the string.\<close>

fun string_includes :: "jsstring \<Rightarrow> jsstring \<Rightarrow> bool" where
  "string_includes [] t = (t = [])"
| "string_includes (c # s) t = (prefix t (c # s) \<or> string_includes s t)"

text \<open>
  \<open>value.includes(t)\<close>: reading a property of \<open>null\<close> or \<open>undefined\<close> throws a
  \<open>TypeError\<close>.
\<close>

fun value_includes :: "cell \<Rightarrow> jsstring \<Rightarrow> error + bool" where
  "value_includes (CellString s) t = Inr (string_includes s t)"
| "value_includes CellNull t = Inl TypeError"
| "value_includes CellUndefined t = Inl TypeError"

text \<open>\<open>ToString\<close>, which \<open>regex.test\<close> applies to its argument.\<close>

fun ToString :: "cell \<Rightarrow> jsstring" where
  "ToString (CellString s) = s"
| "ToString CellNull = str ''null''"
| "ToString CellUndefined = str ''undefined''"

text \<open>
  A check is a function of no argument that returns nothing (\<open>undefined\<close>) or a
  \<open>Message\<close>, or throws; \<open>runValidations\<close> takes \<open>Array<any>\<close>, so a check may return
  any value and may have an effect. The state \<open>'s\<close> is whatever the checks act on.
\<close>

type_synonym 's check = "'s \<Rightarrow> (error + jsvalue) \<times> 's"

definition validateEmail :: "cell \<Rightarrow> 's check" where
  "validateEmail v = (\<lambda>s.
     case value_includes v (str ''@'') of
       Inl e \<Rightarrow> (Inl e, s)
     | Inr found \<Rightarrow>
         if \<not> found
         then (Inr (Object (MessageObject (Message ''Invalid email address.'' ''error'' ''validate''))), s)
         else (Inr (Primitive Undefined), s))"

definition validateRegex :: "regexp \<Rightarrow> cell \<Rightarrow> 's check" where
  "validateRegex regex v = (\<lambda>s.
     if isFalsy (Primitive (Boolean (test regex (ToString v))))
     then (Inr (Object (MessageObject
             (Message ''Value does not meet required format.'' ''error'' ''validate''))), s)
     else (Inr (Primitive Undefined), s))"

text \<open>
  \<open>fns.reduce((acc, fn) => [...acc, fn()], [])\<close>: the checks are called from left to
  right, each result appended to the accumulator; a check that throws ends the call.
\<close>

fun reduce_calls :: "'s check list \<Rightarrow> jsvalue list \<Rightarrow> 's \<Rightarrow> (error + jsvalue list) \<times> 's" where
  "reduce_calls [] acc s = (Inr acc, s)"
| "reduce_calls (fn # fns) acc s =
     (case fn s of
        (Inl e, s') \<Rightarrow> (Inl e, s')
      | (Inr r, s') \<Rightarrow> reduce_calls fns (acc @ [r]) s')"

definition runValidations :: "'s check list \<Rightarrow> 's \<Rightarrow> (error + jsvalue list) \<times> 's" where
  "runValidations fns s =
     (case reduce_calls fns [] s of
        (Inl e, s') \<Rightarrow> (Inl e, s')
      | (Inr results, s') \<Rightarrow> (Inr (filter isNotNil results), s'))"

section \<open>The workbook\<close>

text \<open>
  The configuration object that \<open>src/index.ts\<close> passes to a field factory. Every
  field of the source gives \<open>label\<close>, \<open>required\<close>, \<open>primary\<close>, \<open>unique\<close> and
  \<open>stageVisibility\<close>; a property that a field leaves out is \<open>None\<close>.
\<close>

record stage_visibility =
  mapping :: bool
  review :: bool
  export :: bool

record 's field_options =
  label :: string
  required :: bool
  primary :: bool
  unique :: bool
  description :: "string option"
  stageVisibility :: stage_visibility
  options :: "(string \<times> string) list option"
  fString :: "string option"
  sheetKey :: "string option"
  foreignKey :: "string option"
  relationship :: "string option"
  validate :: "(cell \<Rightarrow> 's \<Rightarrow> (error + jsvalue list) \<times> 's) option"

text \<open>A field is the factory that made it, applied to its configuration object.\<close>

datatype 's field =
    TextField "'s field_options"
  | NumberField "'s field_options"
  | OptionField "'s field_options"
  | ReferenceField "'s field_options"
  | SmartDateField "'s field_options"

fun config :: "'s field \<Rightarrow> 's field_options" where
  "config (TextField c) = c"
| "config (NumberField c) = c"
| "config (OptionField c) = c"
| "config (ReferenceField c) = c"
| "config (SmartDateField c) = c"

text \<open>\<open>new Sheet(name, fields)\<close>: the fields in the order of the object literal.\<close>

datatype 's sheet = Sheet (sheet_name: string) (sheet_fields: "(string \<times> 's field) list")

datatype 's workbook =
  Workbook (wb_name: string) (wb_slug: string) (wb_namespace: string)
    (wb_sheets: "(string \<times> 's sheet) list")

datatype 's space_config =
  SpaceConfig (sc_name: string) (sc_slug: string)
    (workbookConfigs: "(string \<times> 's workbook) list")

text \<open>
  The five sheets. \<open>ListCountriesFragment\<close> and \<open>ListTimeZoneFragment\<close> come from
  modules outside \<open>src/index.ts\<close> and are parameters here.
\<close>

definition Employees :: \<open>(string \<times> string) list \<Rightarrow> (string \<times> string) list \<Rightarrow> 's sheet\<close> where
  \<open>Employees ListCountriesFragment ListTimeZoneFragment = Sheet ''Employees''
    [(''id'', TextField
       \<lparr>label = ''Id'',
         required = True, primary = True, unique = True,
         description = Some ''Every entry must be unique'',
         stageVisibility = \<lparr>mapping = True, review = True, export = True\<rparr>,
         options = None,
         fString = None,
         sheetKey = None, foreignKey = None, relationship = None,
         validate = None\<rparr>),
     (''FirstName'', TextField
       \<lparr>label = ''FirstName'',
         required = True, primary = False, unique = False,
         description = None,
         stageVisibility = \<lparr>mapping = True, review = True, export = True\<rparr>,
         options = None,
         fString = None,
         sheetKey = None, foreignKey = None, relationship = None,
         validate = None\<rparr>),
     (''LastName'', TextField
       \<lparr>label = ''LastName'',
         required = True, primary = False, unique = False,
         description = None,
         stageVisibility = \<lparr>mapping = True, review = True, export = True\<rparr>,
         options = None,
         fString = None,
         sheetKey = None, foreignKey = None, relationship = None,
         validate = None\<rparr>),
     (''Salutation'', TextField
       \<lparr>label = ''Salutation'',
         required = False, primary = False, unique = False,
         description = None,
         stageVisibility = \<lparr>mapping = True, review = True, export = True\<rparr>,
         options = None,
         fString = None,
         sheetKey = None, foreignKey = None, relationship = None,
         validate = None\<rparr>),
     (''Address'', TextField
       \<lparr>label = ''Address'',
         required = False, primary = False, unique = False,
         description = None,
         stageVisibility = \<lparr>mapping = True, review = True, export = True\<rparr>,
         options = None,
         fString = None,
         sheetKey = None, foreignKey = None, relationship = None,
         validate = None\<rparr>),
     (''SuiteNumber'', TextField
       \<lparr>label = ''Suite Number'',
         required = False, primary = False, unique = False,
         description = None,
         stageVisibility = \<lparr>mapping = True, review = True, export = True\<rparr>,
         options = None,
         fString = None,
         sheetKey = None, foreignKey = None, relationship = None,
         validate = None\<rparr>),
     (''City'', TextField
       \<lparr>label = ''City'',
         required = False, primary = False, unique = False,
         description = None,
         stageVisibility = \<lparr>mapping = True, review = True, export = True\<rparr>,
         options = None,
         fString = None,
         sheetKey = None, foreignKey = None, relationship = None,
         validate = None\<rparr>),
     (''Province'', TextField
       \<lparr>label = ''Province'',
         required = False, primary = False, unique = False,
         description = Some ''Must be a valid Provincial/State/Subdivision ISO3166-2 Code of Country in Column [Country]'',
         stageVisibility = \<lparr>mapping = True, review = True, export = True\<rparr>,
         options = None,
         fString = None,
         sheetKey = None, foreignKey = None, relationship = None,
         validate = None\<rparr>),
     (''Country'', OptionField
       \<lparr>label = ''Country'',
         required = False, primary = False, unique = False,
         description = Some ''Must be a valid ISO3166 Country Code'',
         stageVisibility = \<lparr>mapping = True, review = True, export = True\<rparr>,
         options = Some ListCountriesFragment,
         fString = None,
         sheetKey = None, foreignKey = None, relationship = None,
         validate = None\<rparr>),
     (''PostalCode'', TextField
       \<lparr>label = ''Postal Code'',
         required = False, primary = False, unique = False,
         description = None,
         stageVisibility = \<lparr>mapping = True, review = True, export = True\<rparr>,
         options = None,
         fString = None,
         sheetKey = None, foreignKey = None, relationship = None,
         validate = None\<rparr>),
     (''MainPhoneNumber'', TextField
       \<lparr>label = ''Main Phone Number'',
         required = False, primary = False, unique = False,
         description = None,
         stageVisibility = \<lparr>mapping = True, review = True, export = True\<rparr>,
         options = None,
         fString = None,
         sheetKey = None, foreignKey = None, relationship = None,
         validate = None\<rparr>),
     (''PersonalPhoneNumber'', TextField
       \<lparr>label = ''Personal Phone Number'',
         required = False, primary = False, unique = False,
         description = None,
         stageVisibility = \<lparr>mapping = True, review = True, export = True\<rparr>,
         options = None,
         fString = None,
         sheetKey = None, foreignKey = None, relationship = None,
         validate = None\<rparr>),
     (''OtherPhoneNumber'', TextField
       \<lparr>label = ''Other Phone Number'',
         required = False, primary = False, unique = False,
         description = None,
         stageVisibility = \<lparr>mapping = True, review = True, export = True\<rparr>,
         options = None,
         fString = None,
         sheetKey = None, foreignKey = None, relationship = None,
         validate = None\<rparr>),
     (''FaxNumber'', TextField
       \<lparr>label = ''Fax Phone Number'',
         required = False, primary = False, unique = False,
         description = None,
         stageVisibility = \<lparr>mapping = True, review = True, export = True\<rparr>,
         options = None,
         fString = None,
         sheetKey = None, foreignKey = None, relationship = None,
         validate = None\<rparr>),
     (''JobTitle'', TextField
       \<lparr>label = ''Job Title'',
         required = False, primary = False, unique = False,
         description = None,
         stageVisibility = \<lparr>mapping = True, review = True, export = True\<rparr>,
         options = None,
         fString = None,
         sheetKey = None, foreignKey = None, relationship = None,
         validate = None\<rparr>),
     (''EmailAddress'', TextField
       \<lparr>label = ''Email Address'',
         required = True, primary = False, unique = True,
         description = Some ''Every entry must be unique. Must be a valid e-mail address'',
         stageVisibility = \<lparr>mapping = True, review = True, export = True\<rparr>,
         options = None,
         fString = None,
         sheetKey = None, foreignKey = None, relationship = None,
         validate = Some (\<lambda>value. runValidations [validateEmail value])\<rparr>),
     (''Password'', TextField
       \<lparr>label = ''Password'',
         required = True, primary = False, unique = False,
         description = Some ''Password: Required minimum of 8 characters and maximum 72 characters'',
         stageVisibility = \<lparr>mapping = True, review = True, export = True\<rparr>,
         options = None,
         fString = None,
         sheetKey = None, foreignKey = None, relationship = None,
         validate = Some (\<lambda>value. runValidations [validateRegex regex_8_72 value])\<rparr>),
     (''DateOfBirth'', SmartDateField
       \<lparr>label = ''Date Of Birth'',
         required = False, primary = False, unique = False,
         description = Some ''Must be a valid ISO8601 formatted date (YYYY-MM-DD)'',
         stageVisibility = \<lparr>mapping = True, review = True, export = True\<rparr>,
         options = None,
         fString = Some ''yyyy-MM-dd'',
         sheetKey = None, foreignKey = None, relationship = None,
         validate = None\<rparr>),
     (''Gender'', OptionField
       \<lparr>label = ''Gender'',
         required = False, primary = False, unique = False,
         description = Some ''Entries must only be one of the following: [Male, Female, M, F, Other]'',
         stageVisibility = \<lparr>mapping = True, review = True, export = True\<rparr>,
         options = Some [(''Male'', ''Male''), (''Female'', ''Female''), (''M'', ''M''), (''F'', ''F''), (''Other'', ''Other'')],
         fString = None,
         sheetKey = None, foreignKey = None, relationship = None,
         validate = None\<rparr>),
     (''EmploymentDate'', SmartDateField
       \<lparr>label = ''Employment Date'',
         required = False, primary = False, unique = False,
         description = Some ''Must be a valid ISO8601 formatted date (YYYY-MM-DD)'',
         stageVisibility = \<lparr>mapping = True, review = True, export = True\<rparr>,
         options = None,
         fString = Some ''yyyy-MM-dd'',
         sheetKey = None, foreignKey = None, relationship = None,
         validate = None\<rparr>),
     (''TerminationDate'', SmartDateField
       \<lparr>label = ''Termination Date'',
         required = False, primary = False, unique = False,
         description = Some ''Must be a valid ISO8601 formatted date (YYYY-MM-DD)'',
         stageVisibility = \<lparr>mapping = True, review = True, export = True\<rparr>,
         options = None,
         fString = Some ''yyyy-MM-dd'',
         sheetKey = None, foreignKey = None, relationship = None,
         validate = None\<rparr>),
     (''Status'', OptionField
       \<lparr>label = ''Status'',
         required = True, primary = False, unique = False,
         description = Some ''Entries must only be one of the following: [Active, Terminated, Suspended, Hold, On Hold, Pending, Applicant, Rejected]'',
         stageVisibility = \<lparr>mapping = True, review = True, export = True\<rparr>,
         options = Some [(''Active'', ''Active''), (''Terminated'', ''Terminated''), (''Suspended'', ''Suspended''), (''Hold'', ''Hold''), (''OnHold'', ''On Hold''), (''Pending'', ''Pending''), (''Applicant'', ''Applicant''), (''Rejected'', ''Rejected'')],
         fString = None,
         sheetKey = None, foreignKey = None, relationship = None,
         validate = None\<rparr>),
     (''PayrollId'', TextField
       \<lparr>label = ''Payroll Id'',
         required = False, primary = False, unique = False,
         description = Some ''Alpha Numeric Field'',
         stageVisibility = \<lparr>mapping = True, review = True, export = True\<rparr>,
         options = None,
         fString = None,
         sheetKey = None, foreignKey = None, relationship = None,
         validate = Some (\<lambda>value. runValidations [validateRegex regex_alphanumeric value])\<rparr>),
     (''EmploymentType'', TextField
       \<lparr>label = ''Employment Type'',
         required = False, primary = False, unique = False,
         description = Some ''Every entry in this column must also be in the [Name] Column in the sheet [EmploymentTypes]'',
         stageVisibility = \<lparr>mapping = True, review = True, export = True\<rparr>,
         options = None,
         fString = None,
         sheetKey = None, foreignKey = None, relationship = None,
         validate = None\<rparr>),
     (''OvertimeRule'', TextField
       \<lparr>label = ''Overtime Rule'',
         required = False, primary = False, unique = False,
         description = None,
         stageVisibility = \<lparr>mapping = True, review = True, export = True\<rparr>,
         options = None,
         fString = None,
         sheetKey = None, foreignKey = None, relationship = None,
         validate = None\<rparr>),
     (''SINNumber'', TextField
       \<lparr>label = ''SIN Number'',
         required = False, primary = False, unique = False,
         description = Some ''Alpha Numeric Field'',
         stageVisibility = \<lparr>mapping = True, review = True, export = True\<rparr>,
         options = None,
         fString = None,
         sheetKey = None, foreignKey = None, relationship = None,
         validate = Some (\<lambda>value. runValidations [validateRegex regex_alphanumeric value])\<rparr>),
     (''CertificationNumber'', TextField
       \<lparr>label = ''Certification Number'',
         required = False, primary = False, unique = False,
         description = Some ''Alpha Numeric Field'',
         stageVisibility = \<lparr>mapping = True, review = True, export = True\<rparr>,
         options = None,
         fString = None,
         sheetKey = None, foreignKey = None, relationship = None,
         validate = Some (\<lambda>value. runValidations [validateRegex regex_alphanumeric value])\<rparr>),
     (''Designation'', TextField
       \<lparr>label = ''Designation'',
         required = False, primary = False, unique = False,
         description = None,
         stageVisibility = \<lparr>mapping = True, review = True, export = True\<rparr>,
         options = None,
         fString = None,
         sheetKey = None, foreignKey = None, relationship = None,
         validate = None\<rparr>),
     (''SeniorityRank'', TextField
       \<lparr>label = ''Seniority Rank'',
         required = False, primary = False, unique = False,
         description = None,
         stageVisibility = \<lparr>mapping = True, review = True, export = True\<rparr>,
         options = None,
         fString = None,
         sheetKey = None, foreignKey = None, relationship = None,
         validate = None\<rparr>),
     (''SeniorityNumber'', TextField
       \<lparr>label = ''Seniority Number'',
         required = False, primary = False, unique = False,
         description = None,
         stageVisibility = \<lparr>mapping = True, review = True, export = True\<rparr>,
         options = None,
         fString = None,
         sheetKey = None, foreignKey = None, relationship = None,
         validate = None\<rparr>),
     (''SeniorityDate'', SmartDateField
       \<lparr>label = ''Seniority Date'',
         required = False, primary = False, unique = False,
         description = Some ''Must be a valid ISO8601 formatted date (YYYY-MM-DD)'',
         stageVisibility = \<lparr>mapping = True, review = True, export = True\<rparr>,
         options = None,
         fString = Some ''yyyy-MM-dd'',
         sheetKey = None, foreignKey = None, relationship = None,
         validate = None\<rparr>),
     (''SalaryBase'', TextField
       \<lparr>label = ''Salary Base'',
         required = False, primary = False, unique = False,
         description = None,
         stageVisibility = \<lparr>mapping = True, review = True, export = True\<rparr>,
         options = None,
         fString = None,
         sheetKey = None, foreignKey = None, relationship = None,
         validate = None\<rparr>),
     (''MinDailyCapacity'', NumberField
       \<lparr>label = ''Min Daily Capacity'',
         required = False, primary = False, unique = False,
         description = Some ''Numeric in hours'',
         stageVisibility = \<lparr>mapping = True, review = True, export = True\<rparr>,
         options = None,
         fString = None,
         sheetKey = None, foreignKey = None, relationship = None,
         validate = None\<rparr>),
     (''MaxDailyCapacity'', NumberField
       \<lparr>label = ''Max Daily Capacity'',
         required = False, primary = False, unique = False,
         description = Some ''Numeric in hours'',
         stageVisibility = \<lparr>mapping = True, review = True, export = True\<rparr>,
         options = None,
         fString = None,
         sheetKey = None, foreignKey = None, relationship = None,
         validate = None\<rparr>),
     (''MinWeeklyCapacity'', NumberField
       \<lparr>label = ''Min Weekly Capacity'',
         required = False, primary = False, unique = False,
         description = Some ''Numeric in hours'',
         stageVisibility = \<lparr>mapping = True, review = True, export = True\<rparr>,
         options = None,
         fString = None,
         sheetKey = None, foreignKey = None, relationship = None,
         validate = None\<rparr>),
     (''MaxWeeklyCapacity'', NumberField
       \<lparr>label = ''Max Weekly Capacity'',
         required = False, primary = False, unique = False,
         description = Some ''Numeric in hours'',
         stageVisibility = \<lparr>mapping = True, review = True, export = True\<rparr>,
         options = None,
         fString = None,
         sheetKey = None, foreignKey = None, relationship = None,
         validate = None\<rparr>),
     (''MaxCaseload'', NumberField
       \<lparr>label = ''Max Caseload'',
         required = False, primary = False, unique = False,
         description = None,
         stageVisibility = \<lparr>mapping = True, review = True, export = True\<rparr>,
         options = None,
         fString = None,
         sheetKey = None, foreignKey = None, relationship = None,
         validate = None\<rparr>),
     (''DefaultEmployeeAvailability'', OptionField
       \<lparr>label = ''Default Employee Availability'',
         required = False, primary = False, unique = False,
         description = Some ''Entries must only be one of the following: [Available, Unavailable, empty value]'',
         stageVisibility = \<lparr>mapping = True, review = True, export = True\<rparr>,
         options = Some [(''Available'', ''Available''), (''Unavailable'', ''Unavailable'')],
         fString = None,
         sheetKey = None, foreignKey = None, relationship = None,
         validate = None\<rparr>),
     (''SubmitVisitAttachments'', OptionField
       \<lparr>label = ''Submit Visit Attachments'',
         required = False, primary = False, unique = False,
         description = Some ''Answers can either be [yes] or [no]'',
         stageVisibility = \<lparr>mapping = True, review = True, export = True\<rparr>,
         options = Some [(''Yes'', ''Yes''), (''No'', ''No'')],
         fString = None,
         sheetKey = None, foreignKey = None, relationship = None,
         validate = None\<rparr>),
     (''TravelMode'', OptionField
       \<lparr>label = ''Travel Mode'',
         required = False, primary = False, unique = False,
         description = Some ''Entries must only be one of the following: [Driving, Biking, Walking, Transit, empty value]'',
         stageVisibility = \<lparr>mapping = True, review = True, export = True\<rparr>,
         options = Some [(''Driving'', ''Driving''), (''Biking'', ''Biking''), (''Walking'', ''Walking''), (''Transit'', ''Transit'')],
         fString = None,
         sheetKey = None, foreignKey = None, relationship = None,
         validate = None\<rparr>),
     (''preferred_language'', TextField
       \<lparr>label = ''Preferred Language'',
         required = False, primary = False, unique = False,
         description = Some ''Must be a valid ISO639 Language Code. For English you can enter either "en" or "eng"'',
         stageVisibility = \<lparr>mapping = True, review = True, export = True\<rparr>,
         options = None,
         fString = None,
         sheetKey = None, foreignKey = None, relationship = None,
         validate = None\<rparr>),
     (''Remarks'', TextField
       \<lparr>label = ''Remarks'',
         required = False, primary = False, unique = False,
         description = Some ''Free text field'',
         stageVisibility = \<lparr>mapping = True, review = True, export = True\<rparr>,
         options = None,
         fString = None,
         sheetKey = None, foreignKey = None, relationship = None,
         validate = None\<rparr>),
     (''CostCentreNumber'', TextField
       \<lparr>label = ''Cost Centre Number'',
         required = False, primary = False, unique = False,
         description = Some ''Every entry in this column must also be in the [Number] Column in the sheet [CostCentres]'',
         stageVisibility = \<lparr>mapping = True, review = True, export = True\<rparr>,
         options = None,
         fString = None,
         sheetKey = None, foreignKey = None, relationship = None,
         validate = None\<rparr>),
     (''SupplierCode'', TextField
       \<lparr>label = ''Supplier Code'',
         required = False, primary = False, unique = False,
         description = Some ''Every entry in this column must also be in the [Code] Column in the sheet [Suppliers]'',
         stageVisibility = \<lparr>mapping = True, review = True, export = True\<rparr>,
         options = None,
         fString = None,
         sheetKey = None, foreignKey = None, relationship = None,
         validate = None\<rparr>),
     (''Timezone'', OptionField
       \<lparr>label = ''Timezone'',
         required = False, primary = False, unique = False,
         description = Some ''Must be a valid time zone name from the IANA Time Zone Database, e.g. America/Toronto or Australia/Sydney'',
         stageVisibility = \<lparr>mapping = True, review = True, export = True\<rparr>,
         options = Some ListTimeZoneFragment,
         fString = None,
         sheetKey = None, foreignKey = None, relationship = None,
         validate = None\<rparr>)]\<close>

definition EmployeeRoles :: \<open>'s sheet\<close> where
  \<open>EmployeeRoles = Sheet ''Employee Roles''
    [(''EmployeeId'', ReferenceField
       \<lparr>label = ''Employee Id'',
         required = True, primary = True, unique = False,
         description = Some ''Every entry in this column must also be in the [Id] Column in the sheet [Employees]. The contents of this sheet will be merged into any of the sheets [Employees, EmployeeUpdates] and only migrated when those sheets are migrated. It is not possible to migrate this data by itself.'',
         stageVisibility = \<lparr>mapping = True, review = True, export = True\<rparr>,
         options = None,
         fString = None,
         sheetKey = Some ''Employees'', foreignKey = Some ''id'', relationship = Some ''has-many'',
         validate = None\<rparr>),
     (''Role'', TextField
       \<lparr>label = ''Role'',
         required = True, primary = False, unique = False,
         description = None,
         stageVisibility = \<lparr>mapping = True, review = True, export = True\<rparr>,
         options = None,
         fString = None,
         sheetKey = None, foreignKey = None, relationship = None,
         validate = None\<rparr>)]\<close>

definition EmployeeDepartments :: \<open>'s sheet\<close> where
  \<open>EmployeeDepartments = Sheet ''Employee Departments''
    [(''DepartmentCode'', TextField
       \<lparr>label = ''DepartmentCode'',
         required = True, primary = False, unique = False,
         description = Some ''Every entry in this column must also be in the [Code] Column in the sheet [Departments]. The contents of this sheet will be merged into any of the sheets [Employees, EmployeeUpdates] and only migrated when those sheets are migrated. It is not possible to migrate this data by itself.'',
         stageVisibility = \<lparr>mapping = True, review = True, export = True\<rparr>,
         options = None,
         fString = None,
         sheetKey = None, foreignKey = None, relationship = None,
         validate = None\<rparr>),
     (''EmployeeId'', TextField
       \<lparr>label = ''Employee Id'',
         required = True, primary = False, unique = False,
         description = Some ''Every entry in this column must also be in the [Id] Column in the sheet [Employees]. The contents of this sheet will be merged into any of the sheets [Employees, EmployeeUpdates] and only migrated when those sheets are migrated. It is not possible to migrate this data by itself.'',
         stageVisibility = \<lparr>mapping = True, review = True, export = True\<rparr>,
         options = None,
         fString = None,
         sheetKey = Some ''Employees'', foreignKey = Some ''id'', relationship = Some ''has-many'',
         validate = None\<rparr>)]\<close>

definition EmployeeGroups :: \<open>'s sheet\<close> where
  \<open>EmployeeGroups = Sheet ''Employee Groups''
    [(''EmployeeId'', TextField
       \<lparr>label = ''Employee Id'',
         required = True, primary = False, unique = False,
         description = Some ''Every entry in this column must also be in the [Id] Column in the sheet [Employees]. The contents of this sheet will be merged into any of the sheets [Employees, EmployeeUpdates] and only migrated when those sheets are migrated. It is not possible to migrate this data by itself.'',
         stageVisibility = \<lparr>mapping = True, review = True, export = True\<rparr>,
         options = None,
         fString = None,
         sheetKey = Some ''Employees'', foreignKey = Some ''id'', relationship = Some ''has-many'',
         validate = None\<rparr>),
     (''GroupName'', TextField
       \<lparr>label = ''Group Name'',
         required = True, primary = False, unique = False,
         description = Some ''Every entry in this column must also be in the [Name] Column in the sheet [Groups]'',
         stageVisibility = \<lparr>mapping = True, review = True, export = True\<rparr>,
         options = None,
         fString = None,
         sheetKey = None, foreignKey = None, relationship = None,
         validate = None\<rparr>)]\<close>

definition AssociatedEmployees :: \<open>'s sheet\<close> where
  \<open>AssociatedEmployees = Sheet ''Associated Employees''
    [(''ClientId'', TextField
       \<lparr>label = ''Client Id'',
         required = True, primary = True, unique = False,
         description = Some ''Every entry in this column must also be in the [Id] Column in the sheet [Clients].'',
         stageVisibility = \<lparr>mapping = True, review = True, export = True\<rparr>,
         options = None,
         fString = None,
         sheetKey = None, foreignKey = None, relationship = None,
         validate = None\<rparr>),
     (''EmployeeId'', TextField
       \<lparr>label = ''Employee Id'',
         required = True, primary = False, unique = False,
         description = Some ''Every entry in this column must also be in the [Id] Column in the sheet [Employees]'',
         stageVisibility = \<lparr>mapping = True, review = True, export = True\<rparr>,
         options = None,
         fString = None,
         sheetKey = Some ''Employees'', foreignKey = Some ''id'', relationship = Some ''has-many'',
         validate = None\<rparr>),
     (''Description'', TextField
       \<lparr>label = ''Description'',
         required = False, primary = False, unique = False,
         description = None,
         stageVisibility = \<lparr>mapping = True, review = True, export = True\<rparr>,
         options = None,
         fString = None,
         sheetKey = None, foreignKey = None, relationship = None,
         validate = None\<rparr>)]\<close>

text \<open>The workbook \<open>basic\<close> of the exported space configuration.\<close>

definition basic ::
  "(string \<times> string) list \<Rightarrow> (string \<times> string) list \<Rightarrow> 's workbook" where
  "basic ListCountriesFragment ListTimeZoneFragment =
     Workbook ''Employees'' ''Employeesworkbook'' ''Employees''
       [(''Employees'', Employees ListCountriesFragment ListTimeZoneFragment),
        (''EmployeeRoles'', EmployeeRoles),
        (''EmployeeDepartments'', EmployeeDepartments),
        (''EmployeeGroups'', EmployeeGroups),
        (''AssociatedEmployees'', AssociatedEmployees)]"

definition default_export ::
  "(string \<times> string) list \<Rightarrow> (string \<times> string) list \<Rightarrow> 's space_config" where
  "default_export ListCountriesFragment ListTimeZoneFragment =
     SpaceConfig ''Employees'' ''Employeessc''
       [(''basic'', basic ListCountriesFragment ListTimeZoneFragment)]"

section \<open>Notions used to state the properties\<close>

text \<open>The number of repetitions \<open>n\<close> respects the upper bound of a quantifier.\<close>

definition within_bound :: "nat \<Rightarrow> nat option \<Rightarrow> bool" where
  "within_bound n hi = (case hi of None \<Rightarrow> True | Some h \<Rightarrow> n \<le> h)"

text \<open>The code units of the class \<open>[a-zA-Z0-9]\<close>.\<close>

definition alphanumeric :: "code_unit \<Rightarrow> bool" where
  "alphanumeric c = ((0x61 \<le> c \<and> c \<le> 0x7A) \<or> (0x41 \<le> c \<and> c \<le> 0x5A) \<or> (0x30 \<le> c \<and> c \<le> 0x39))"

text \<open>
  The aggregator as the specification words it: every check is called once, from left
  to right, each in the state its predecessor left, and every outcome is recorded.
\<close>

fun invoke_each_once_in_order :: "'s check list \<Rightarrow> 's \<Rightarrow> (error + jsvalue) list \<times> 's" where
  "invoke_each_once_in_order [] s = ([], s)"
| "invoke_each_once_in_order (fn # fns) s =
     (case fn s of (r, s') \<Rightarrow>
        (case invoke_each_once_in_order fns s' of (rs, s'') \<Rightarrow> (r # rs, s'')))"

text \<open>
  The platform calls the \<open>validate\<close> hook of the field stored under a key of a sheet;
  \<open>None\<close> when the sheet has no such field or the field has no hook.
\<close>

definition field_validate ::
  "'s sheet \<Rightarrow> string \<Rightarrow> cell \<Rightarrow> 's \<Rightarrow> ((error + jsvalue list) \<times> 's) option" where
  "field_validate sh key v s =
     (case map_of (sheet_fields sh) key of
        None \<Rightarrow> None
      | Some f \<Rightarrow> (case validate (config f) of None \<Rightarrow> None | Some hook \<Rightarrow> Some (hook v s)))"

text \<open>The fields of a sheet whose \<open>primary\<close> flag is set.\<close>

definition primary_fields :: "'s sheet \<Rightarrow> (string \<times> 's field) list" where
  "primary_fields sh = filter (\<lambda>(k, f). primary (config f)) (sheet_fields sh)"

text \<open>A field that is shown at the three stages of the pipeline.\<close>

definition visible_at_every_stage :: "'s field \<Rightarrow> bool" where
  "visible_at_every_stage f =
     (mapping (stageVisibility (config f)) \<and> review (stageVisibility (config f))
      \<and> export (stageVisibility (config f)))"

text \<open>
  A reference names its target by \<open>sheetKey\<close>, a key of the workbook's \<open>sheets\<close>,
  and \<open>foreignKey\<close>, a key of that sheet's fields.
\<close>

fun is_reference :: "'s field \<Rightarrow> bool" where
  "is_reference (ReferenceField c) = True"
| "is_reference f = False"

definition field_of :: "'s sheet \<Rightarrow> string \<Rightarrow> 's field option" where
  "field_of sh key = map_of (sheet_fields sh) key"

definition reference_target :: "'s workbook \<Rightarrow> 's field \<Rightarrow> 's field option" where
  "reference_target wb f =
     (case (sheetKey (config f), foreignKey (config f)) of
        (Some sk, Some fk) \<Rightarrow>
          (case map_of (wb_sheets wb) sk of None \<Rightarrow> None | Some sh \<Rightarrow> field_of sh fk)
      | _ \<Rightarrow> None)"

section \<open>Guards: lemmas\<close>

lemma strict_equals_Null: "strict_equals v Null = (v = Primitive Null)"
  by (cases "(v, Null)" rule: strict_equals.cases) auto

lemma strict_equals_Undefined: "strict_equals v Undefined = (v = Primitive Undefined)"
  by (cases "(v, Undefined)" rule: strict_equals.cases) auto

lemma strict_equals_String: "strict_equals v (String s) = (v = Primitive (String s))"
  by (cases "(v, String s)" rule: strict_equals.cases) auto

lemma strict_equals_Boolean: "strict_equals v (Boolean b) = (v = Primitive (Boolean b))"
  by (cases "(v, Boolean b)" rule: strict_equals.cases) auto

lemma number_equal_zero: "number_equal x (Finite 0) = (x = Finite 0 \<or> x = NegZero)"
  by (cases x) auto

lemma strict_equals_zero:
  "strict_equals v (Number (Finite 0)) =
     (v = Primitive (Number (Finite 0)) \<or> v = Primitive (Number NegZero))"
  by (cases "(v, Number (Finite 0))" rule: strict_equals.cases) (auto simp: number_equal_zero)

lemma Number_isNaN_iff: "Number_isNaN v = (v = Primitive (Number NaN))"
  by (cases v rule: Number_isNaN.cases) auto

lemma isString_iff: "isString v = (\<exists>s. v = Primitive (String s))"
  by (cases v rule: typeof.cases) (auto simp: isString_def)

lemma isNotNil_Object: "isNotNil (Object ob)"
  by (simp add: isNotNil_def isNil_def isNull_def isUndefined_def)

lemma isNotNil_Undefined: "\<not> isNotNil (Primitive Undefined)"
  by (simp add: isNotNil_def isNil_def isUndefined_def)

lemma isNil_cell: "isNil (cell_value v) = (v = CellString [] \<or> v = CellNull \<or> v = CellUndefined)"
  by (cases v)
    (simp_all add: isNil_def isNull_def isUndefined_def isString_def str_def)

section \<open>Regular expressions: lemmas\<close>

lemma within_bound_Suc:
  "within_bound (Suc m) hi = (hi \<noteq> Some 0 \<and> within_bound m (map_option (\<lambda>h. h - 1) hi))"
  by (cases hi) (auto simp: within_bound_def)

lemma within_bound_0: "within_bound 0 hi"
  by (cases hi) (auto simp: within_bound_def)

lemma ex_nat_cases: "(\<exists>n::nat. P n) = (P 0 \<or> (\<exists>m. P (Suc m)))"
proof
  assume "\<exists>n. P n"
  then obtain n where n: "P n" ..
  then show "P 0 \<or> (\<exists>m. P (Suc m))" by (cases n) auto
next
  assume "P 0 \<or> (\<exists>m. P (Suc m))"
  then show "\<exists>n. P n" by auto
qed

lemma repeat_atom_iff:
  "repeat_atom a lo hi k i s =
     (\<exists>n\<le>length s. lo \<le> n \<and> within_bound n hi
        \<and> (\<forall>c\<in>set (take n s). atom_matches a c) \<and> k (i + n) (drop n s))"
proof (induction s arbitrary: lo hi i)
  case Nil
  show ?case by (simp add: within_bound_0)
next
  case (Cons c s)
  let ?P = "\<lambda>n. n \<le> length (c # s) \<and> lo \<le> n \<and> within_bound n hi
        \<and> (\<forall>x\<in>set (take n (c # s)). atom_matches a x) \<and> k (i + n) (drop n (c # s))"
  have split: "(\<exists>n. ?P n) = (?P 0 \<or> (\<exists>m. ?P (Suc m)))"
    by (rule ex_nat_cases)
  have zero: "?P 0 = (lo = 0 \<and> k i (c # s))"
    by (simp add: within_bound_0)
  have suc: "(\<exists>m. ?P (Suc m)) =
      (hi \<noteq> Some 0 \<and> atom_matches a c
        \<and> repeat_atom a (lo - 1) (map_option (\<lambda>h. h - 1) hi) k (i + 1) s)"
    unfolding Cons.IH by (auto simp: within_bound_Suc)
  have "repeat_atom a lo hi k i (c # s) = ((\<exists>m. ?P (Suc m)) \<or> ?P 0)"
    by (simp only: suc zero repeat_atom.simps)
  also have "\<dots> = (\<exists>n. ?P n)"
    using split by blast
  finally show ?case .
qed

lemma search_from_anchored: "0 < i \<Longrightarrow> \<not> search_from (AssertStart # ts) i s"
  by (induction s arbitrary: i) auto

lemma test_anchored:
  "test [AssertStart, Quantified a lo hi, AssertEnd] s =
     (lo \<le> length s \<and> within_bound (length s) hi \<and> (\<forall>c\<in>set s. atom_matches a c))"
proof -
  have "test [AssertStart, Quantified a lo hi, AssertEnd] s =
      match_terms [AssertStart, Quantified a lo hi, AssertEnd] 0 s"
    by (cases s) (simp_all add: test_def search_from_anchored)
  also have "\<dots> = (\<exists>n\<le>length s. lo \<le> n \<and> within_bound n hi
        \<and> (\<forall>c\<in>set (take n s). atom_matches a c) \<and> drop n s = [])"
    by (simp add: repeat_atom_iff)
  also have "\<dots> = (lo \<le> length s \<and> within_bound (length s) hi \<and> (\<forall>c\<in>set s. atom_matches a c))"
    by (auto simp: le_antisym)
  finally show ?thesis .
qed

lemma test_regex_8_72:
  "test regex_8_72 s = (8 \<le> length s \<and> length s \<le> 72 \<and> (\<forall>c\<in>set s. \<not> line_terminator c))"
  by (simp add: regex_8_72_def test_anchored within_bound_def)
lemma test_regex_alphanumeric:
  "test regex_alphanumeric s = (s \<noteq> [] \<and> (\<forall>c\<in>set s. alphanumeric c))"
  by (cases s) (simp_all add: regex_alphanumeric_def test_anchored within_bound_def alphanumeric_def)

lemma string_includes_single: "string_includes s [c] = (c \<in> set s)"
  by (induction s) auto

lemma isFalsy_Boolean: "isFalsy (Primitive (Boolean b)) = (\<not> b)"
  by (simp add: isFalsy_def isNil_def isNull_def isUndefined_def isString_def)

lemma validateRegex_iff:
  "validateRegex regex v s =
     (if test regex (ToString v)
      then (Inr (Primitive Undefined), s)
      else (Inr (Object (MessageObject
             (Message ''Value does not meet required format.'' ''error'' ''validate''))), s))"
  by (simp add: validateRegex_def isFalsy_Boolean)

lemma at_sign: "str ''@'' = [0x40]"
  by (simp add: str_def)

lemma validateEmail_string:
  "validateEmail (CellString v) s =
     (if 0x40 \<in> set v
      then (Inr (Primitive Undefined), s)
      else (Inr (Object (MessageObject (Message ''Invalid email address.'' ''error'' ''validate''))), s))"
  by (simp add: validateEmail_def at_sign string_includes_single)

section \<open>The aggregator: lemmas\<close>

lemma reduce_calls_no_throw:
  "\<forall>r\<in>set (fst (invoke_each_once_in_order fns s)). \<not> isl r \<Longrightarrow>
   reduce_calls fns acc s =
     (Inr (acc @ map projr (fst (invoke_each_once_in_order fns s))),
      snd (invoke_each_once_in_order fns s))"
proof (induction fns arbitrary: acc s)
  case Nil
  show ?case by simp
next
  case (Cons fn fns)
  obtain r s' where fn: "fn s = (r, s')" by (cases "fn s")
  obtain rs s'' where rest: "invoke_each_once_in_order fns s' = (rs, s'')"
    by (cases "invoke_each_once_in_order fns s'")
  from Cons.prems fn rest have r: "\<not> isl r" and rs: "\<forall>x\<in>set rs. \<not> isl x"
    by simp_all
  from r obtain v where v: "r = Inr v" by (cases r) auto
  from rs rest have "\<forall>x\<in>set (fst (invoke_each_once_in_order fns s')). \<not> isl x" by simp
  from Cons.IH [OF this, of "acc @ [v]"] show ?case
    by (simp add: fn rest v)
qed

lemma runValidations_no_throw:
  "\<forall>r\<in>set (fst (invoke_each_once_in_order fns s)). \<not> isl r \<Longrightarrow>
   runValidations fns s =
     (Inr (filter isNotNil (map projr (fst (invoke_each_once_in_order fns s)))),
      snd (invoke_each_once_in_order fns s))"
  by (simp add: runValidations_def reduce_calls_no_throw)

lemma reduce_calls_throw:
  "\<forall>r\<in>set (fst (invoke_each_once_in_order pre s)). \<not> isl r \<Longrightarrow>
   fn (snd (invoke_each_once_in_order pre s)) = (Inl e, s') \<Longrightarrow>
   reduce_calls (pre @ fn # post) acc s = (Inl e, s')"
proof (induction pre arbitrary: acc s)
  case Nil
  then show ?case by simp
next
  case (Cons c pre)
  obtain r s1 where c: "c s = (r, s1)" by (cases "c s")
  obtain rs s2 where rest: "invoke_each_once_in_order pre s1 = (rs, s2)"
    by (cases "invoke_each_once_in_order pre s1")
  from Cons.prems(1) c rest have r: "\<not> isl r" and rs: "\<forall>x\<in>set rs. \<not> isl x"
    by simp_all
  from r obtain v where v: "r = Inr v" by (cases r) auto
  from rs rest have a: "\<forall>x\<in>set (fst (invoke_each_once_in_order pre s1)). \<not> isl x" by simp
  from Cons.prems(2) c rest have b: "fn (snd (invoke_each_once_in_order pre s1)) = (Inl e, s')"
    by simp
  from Cons.IH [OF a b, of "acc @ [v]"] show ?case
    by (simp add: c v)
qed

lemma runValidations_throw:
  "\<forall>r\<in>set (fst (invoke_each_once_in_order pre s)). \<not> isl r \<Longrightarrow>
   fn (snd (invoke_each_once_in_order pre s)) = (Inl e, s') \<Longrightarrow>
   runValidations (pre @ fn # post) s = (Inl e, s')"
  by (simp add: runValidations_def reduce_calls_throw)

section \<open>The workbook: lemmas\<close>

lemma Employees_hooks:
  "field_validate (Employees c t) ''EmailAddress'' v s = Some (runValidations [validateEmail v] s)"
  "field_validate (Employees c t) ''Password'' v s = Some (runValidations [validateRegex regex_8_72 v] s)"
  "field_validate (Employees c t) ''PayrollId'' v s = Some (runValidations [validateRegex regex_alphanumeric v] s)"
  "field_validate (Employees c t) ''SINNumber'' v s = Some (runValidations [validateRegex regex_alphanumeric v] s)"
  "field_validate (Employees c t) ''CertificationNumber'' v s = Some (runValidations [validateRegex regex_alphanumeric v] s)"
  by (simp_all add: field_validate_def Employees_def)

lemma primary_fields_of_sheets:
  "map fst (primary_fields (Employees c t)) = [''id'']"
  "map fst (primary_fields EmployeeRoles) = [''EmployeeId'']"
  "primary_fields EmployeeDepartments = []"
  "primary_fields EmployeeGroups = []"
  "map fst (primary_fields AssociatedEmployees) = [''ClientId'']"
  by (simp_all add: primary_fields_def Employees_def EmployeeRoles_def EmployeeDepartments_def
      EmployeeGroups_def AssociatedEmployees_def)

lemma sheet_names:
  "sheet_name (Employees c t) = ''Employees''"
  "sheet_name EmployeeRoles = ''Employee Roles''"
  "sheet_name EmployeeDepartments = ''Employee Departments''"
  "sheet_name EmployeeGroups = ''Employee Groups''"
  "sheet_name AssociatedEmployees = ''Associated Employees''"
  by (simp_all add: Employees_def EmployeeRoles_def EmployeeDepartments_def
      EmployeeGroups_def AssociatedEmployees_def)

lemma length_map_fst: "length xs = length (map fst xs)"
  by simp

lemma Employees_visible:
  "list_all (\<lambda>(k, f). visible_at_every_stage f) (sheet_fields (Employees c t))"
  "length (sheet_fields (Employees c t)) = 45"
  by (simp_all add: Employees_def visible_at_every_stage_def)

lemma other_sheets_visible:
  "list_all (\<lambda>(k, f). visible_at_every_stage f) (sheet_fields EmployeeRoles)"
  "list_all (\<lambda>(k, f). visible_at_every_stage f) (sheet_fields EmployeeDepartments)"
  "list_all (\<lambda>(k, f). visible_at_every_stage f) (sheet_fields EmployeeGroups)"
  "list_all (\<lambda>(k, f). visible_at_every_stage f) (sheet_fields AssociatedEmployees)"
  "length (sheet_fields EmployeeRoles) = 2"
  "length (sheet_fields EmployeeDepartments) = 2"
  "length (sheet_fields EmployeeGroups) = 2"
  "length (sheet_fields AssociatedEmployees) = 3"
  by (simp_all add: EmployeeRoles_def EmployeeDepartments_def EmployeeGroups_def
      AssociatedEmployees_def visible_at_every_stage_def)

lemma field_of_Employees_id:
  "field_of (Employees c t) ''id'' = Some (TextField
       \<lparr>label = ''Id'',
         required = True, primary = True, unique = True,
         description = Some ''Every entry must be unique'',
         stageVisibility = \<lparr>mapping = True, review = True, export = True\<rparr>,
         options = None,
         fString = None,
         sheetKey = None, foreignKey = None, relationship = None,
         validate = None\<rparr>)"
  by (simp add: field_of_def Employees_def)

lemma target_of_Employees_id:
  "sheetKey (config f) = Some ''Employees'' \<Longrightarrow> foreignKey (config f) = Some ''id'' \<Longrightarrow>
   reference_target (basic c t) f = field_of (Employees c t) ''id''"
  by (simp add: reference_target_def basic_def)

lemma references_resolve:
  "\<forall>(n, f)\<in>set (sheet_fields (Employees c t)). is_reference f \<longrightarrow> P f"
  "\<forall>(n, f)\<in>set (sheet_fields EmployeeDepartments). is_reference f \<longrightarrow> P f"
  "\<forall>(n, f)\<in>set (sheet_fields EmployeeGroups). is_reference f \<longrightarrow> P f"
  "\<forall>(n, f)\<in>set (sheet_fields AssociatedEmployees). is_reference f \<longrightarrow> P f"
  by (simp_all add: Employees_def EmployeeDepartments_def EmployeeGroups_def
      AssociatedEmployees_def)

lemma references_of_EmployeeRoles:
  "(\<And>f. sheetKey (config f) = Some ''Employees'' \<Longrightarrow> foreignKey (config f) = Some ''id'' \<Longrightarrow> P f)
   \<Longrightarrow> \<forall>(n, f)\<in>set (sheet_fields EmployeeRoles). is_reference f \<longrightarrow> P f"
  by (simp add: EmployeeRoles_def)

lemma all_sheets_of_basic:
  "Q (Employees c t) \<Longrightarrow> Q EmployeeRoles \<Longrightarrow> Q EmployeeDepartments \<Longrightarrow> Q EmployeeGroups \<Longrightarrow>
   Q AssociatedEmployees \<Longrightarrow> \<forall>(k, sh)\<in>set (wb_sheets (basic c t)). Q sh"
  by (simp add: basic_def)

section \<open>Properties of the guards\<close>

text \<open>
  C7. For every value \<open>v\<close>, \<open>isNil v\<close> holds exactly when \<open>isNull v\<close> or
  \<open>isUndefined v\<close> or \<open>v\<close> is a string and is the empty string; and \<open>isNull v\<close> and
  \<open>isUndefined v\<close> never hold together: the first holds of \<open>null\<close> only, the second
  of \<open>undefined\<close> only.
\<close>

theorem isNil_spec:
  "isNil v = (isNull v \<or> isUndefined v \<or> (isString v \<and> v = Primitive (String (str ''''))))
   \<and> \<not> (isNull v \<and> isUndefined v)
   \<and> isNull v = (v = Primitive Null)
   \<and> isUndefined v = (v = Primitive Undefined)"
  by (auto simp: isNil_def isNull_def isUndefined_def strict_equals_Null strict_equals_Undefined strict_equals_String)

theorem isNil_spec_witness:
  "isNil (Primitive (String [])) \<and> isNil (Primitive Null) \<and> isNil (Primitive Undefined)
   \<and> \<not> isNil (Primitive (String (str ''a''))) \<and> \<not> isNil (Primitive (Number (Finite 0)))
   \<and> \<not> isNil (Object (OtherObject 0))"
  using isNil_spec [of "Primitive (String [])"] isNil_spec [of "Primitive Null"]
    isNil_spec [of "Primitive Undefined"] isNil_spec [of "Primitive (String (str ''a''))"]
    isNil_spec [of "Primitive (Number (Finite 0))"] isNil_spec [of "Object (OtherObject 0)"]
  by (simp add: str_def isString_def)

text \<open>
  C8. For every value \<open>v\<close>, \<open>isTruthy v\<close> is the negation of \<open>isFalsy v\<close>, so no value
  satisfies both and none satisfies neither; and \<open>isFalsy\<close> holds exactly of the
  number zero (of either sign), of \<open>NaN\<close>, of \<open>false\<close> and of the nil values, which are
  \<open>null\<close>, \<open>undefined\<close> and the empty string.
\<close>

theorem isTruthy_complement:
  "isTruthy v = (\<not> isFalsy v)
   \<and> isFalsy v =
       (v = Primitive (Number (Finite 0)) \<or> v = Primitive (Number NegZero)
        \<or> v = Primitive (Number NaN) \<or> v = Primitive (Boolean False) \<or> isNil v)
   \<and> isNil v = (v = Primitive Null \<or> v = Primitive Undefined \<or> v = Primitive (String []))"
  by (auto simp: isTruthy_def isFalsy_def isNil_def isNull_def isUndefined_def str_def isString_iff
      strict_equals_Null strict_equals_Undefined strict_equals_String strict_equals_zero
      strict_equals_Boolean Number_isNaN_iff)

theorem isTruthy_complement_witness:
  "isFalsy (Primitive (Number NaN)) \<and> \<not> isTruthy (Primitive (Number NaN))
   \<and> isFalsy (Primitive (Number NegZero)) \<and> isFalsy (Primitive (Boolean False))
   \<and> isTruthy (Primitive (Boolean True)) \<and> isTruthy (Primitive (BigInt 0))
   \<and> isTruthy (Primitive (String (str ''0''))) \<and> isTruthy (Object (Function 0))"
  using isTruthy_complement [of "Primitive (Number NaN)"]
    isTruthy_complement [of "Primitive (Number NegZero)"]
    isTruthy_complement [of "Primitive (Boolean False)"]
    isTruthy_complement [of "Primitive (Boolean True)"]
    isTruthy_complement [of "Primitive (BigInt 0)"]
    isTruthy_complement [of "Primitive (String (str ''0''))"]
    isTruthy_complement [of "Object (Function 0)"]
  by (simp add: str_def)

section \<open>Properties of the aggregator\<close>

text \<open>
  C1 (as amended). When no check throws, \<open>runValidations\<close> calls every check once,
  in the order supplied, whatever the earlier checks returned: the state it leaves is
  the one that calling the checks one after the other leaves, and its result is the
  sequence of their results that are not nil, in that order, nothing merged and
  nothing removed twice. A \<open>Message\<close> is never nil and \<open>undefined\<close> is; so for
  checks \<open>c1\<close>, \<open>c2\<close>, \<open>c3\<close> of which only \<open>c2\<close> returns a \<open>Message\<close>, the
  result is that one \<open>Message\<close>. A check that throws ends the call: the error is
  thrown on, in the state that check left, the checks after it are not called and no
  \<open>Message\<close> is returned.
\<close>

theorem runValidations_in_order:
  "((\<forall>r\<in>set (fst (invoke_each_once_in_order fns s)). \<not> isl r) \<longrightarrow>
      runValidations fns s =
        (Inr (filter isNotNil (map projr (fst (invoke_each_once_in_order fns s)))),
         snd (invoke_each_once_in_order fns s)))
   \<and> (c1 s = (Inr (Primitive Undefined), s1) \<and> c2 s1 = (Inr (Object (MessageObject m)), s2)
        \<and> c3 s2 = (Inr (Primitive Undefined), s3) \<longrightarrow>
      runValidations [c1, c2, c3] s = (Inr [Object (MessageObject m)], s3))
   \<and> isNotNil (Object (MessageObject m))
   \<and> \<not> isNotNil (Primitive Undefined)
   \<and> ((\<forall>r\<in>set (fst (invoke_each_once_in_order pre s)). \<not> isl r)
        \<and> fn (snd (invoke_each_once_in_order pre s)) = (Inl e, s') \<longrightarrow>
      runValidations (pre @ fn # post) s = (Inl e, s'))"
proof (intro conjI impI)
  assume "\<forall>r\<in>set (fst (invoke_each_once_in_order fns s)). \<not> isl r"
  then show "runValidations fns s =
        (Inr (filter isNotNil (map projr (fst (invoke_each_once_in_order fns s)))),
         snd (invoke_each_once_in_order fns s))"
    by (rule runValidations_no_throw)
next
  assume "c1 s = (Inr (Primitive Undefined), s1) \<and> c2 s1 = (Inr (Object (MessageObject m)), s2)
        \<and> c3 s2 = (Inr (Primitive Undefined), s3)"
  then show "runValidations [c1, c2, c3] s = (Inr [Object (MessageObject m)], s3)"
    by (simp add: runValidations_def isNotNil_Object isNotNil_Undefined)
next
  show "isNotNil (Object (MessageObject m))" by (rule isNotNil_Object)
next
  show "\<not> isNotNil (Primitive Undefined)" by (rule isNotNil_Undefined)
next
  assume "(\<forall>r\<in>set (fst (invoke_each_once_in_order pre s)). \<not> isl r)
        \<and> fn (snd (invoke_each_once_in_order pre s)) = (Inl e, s')"
  then show "runValidations (pre @ fn # post) s = (Inl e, s')"
    by (simp add: runValidations_throw)
qed

theorem runValidations_in_order_witness:
  "runValidations
     [\<lambda>log. (Inr (Primitive Undefined), log @ [1::nat]),
      \<lambda>log. (Inr (Object (MessageObject (Message ''m'' ''error'' ''validate''))), log @ [2]),
      \<lambda>log. (Inr (Object (MessageObject (Message ''m'' ''error'' ''validate''))), log @ [3]),
      \<lambda>log. (Inr (Primitive Undefined), log @ [4])] []
   = (Inr [Object (MessageObject (Message ''m'' ''error'' ''validate'')),
           Object (MessageObject (Message ''m'' ''error'' ''validate''))], [1, 2, 3, 4])
   \<and> runValidations
     [\<lambda>log. (Inr (Primitive Undefined), log @ [1::nat]),
      \<lambda>log. (Inr (Object (MessageObject (Message ''m'' ''error'' ''validate''))), log @ [2]),
      \<lambda>log. (Inr (Primitive Undefined), log @ [3])] []
   = (Inr [Object (MessageObject (Message ''m'' ''error'' ''validate''))], [1, 2, 3])
   \<and> runValidations
     ([\<lambda>log. (Inr (Object (MessageObject (Message ''m'' ''error'' ''validate''))), log @ [1::nat])]
      @ (\<lambda>log. (Inl TypeError, log @ [2]))
      # [\<lambda>log. (Inr (Primitive Undefined), log @ [3])]) []
   = (Inl TypeError, [1, 2])"
  using runValidations_in_order [of
     "[\<lambda>log. (Inr (Primitive Undefined), log @ [1::nat]),
      \<lambda>log. (Inr (Object (MessageObject (Message ''m'' ''error'' ''validate''))), log @ [2]),
      \<lambda>log. (Inr (Object (MessageObject (Message ''m'' ''error'' ''validate''))), log @ [3]),
      \<lambda>log. (Inr (Primitive Undefined), log @ [4])]" "[]"
     "\<lambda>log. (Inr (Primitive Undefined), log @ [1::nat])" "[1]"
     "\<lambda>log. (Inr (Object (MessageObject (Message ''m'' ''error'' ''validate''))), log @ [2])"
     "Message ''m'' ''error'' ''validate''" "[1, 2]"
     "\<lambda>log. (Inr (Primitive Undefined), log @ [3])" "[1, 2, 3]"
     "[\<lambda>log. (Inr (Object (MessageObject (Message ''m'' ''error'' ''validate''))), log @ [1::nat])]"
     "\<lambda>log. (Inl TypeError, log @ [2])" TypeError "[1, 2]"
     "[\<lambda>log. (Inr (Primitive Undefined), log @ [3])]"]
  by (simp add: isNotNil_Object isNotNil_Undefined)

text \<open>
  A check that throws, here the email check on \<open>null\<close>, cuts the call short: the
  third check is not called and the \<open>Message\<close> of the first is lost.
\<close>

theorem runValidations_in_order_counterexample:
  "runValidations
     [\<lambda>log. (Inr (Object (MessageObject (Message ''m'' ''error'' ''validate''))), log @ [1::nat]),
      validateEmail CellNull,
      \<lambda>log. (Inr (Object (MessageObject (Message ''n'' ''error'' ''validate''))), log @ [3])] []
   = (Inl TypeError, [1])"
  by (simp add: runValidations_def validateEmail_def)

text \<open>
  C6. \<open>runValidations\<close> of no check returns the empty array, and so it does
  whenever every check returns nothing; the result is an array, never nil.
\<close>

theorem runValidations_all_pass:
  "runValidations [] s = (Inr [], s)
   \<and> ((\<forall>r\<in>set (fst (invoke_each_once_in_order fns s)). r = Inr (Primitive Undefined)) \<longrightarrow>
        runValidations fns s = (Inr [], snd (invoke_each_once_in_order fns s)))"
proof (intro conjI impI)
  show "runValidations [] s = (Inr [], s)" by (simp add: runValidations_def)
next
  assume pass: "\<forall>r\<in>set (fst (invoke_each_once_in_order fns s)). r = Inr (Primitive Undefined)"
  then have "\<forall>r\<in>set (fst (invoke_each_once_in_order fns s)). \<not> isl r" by auto
  then have "runValidations fns s =
     (Inr (filter isNotNil (map projr (fst (invoke_each_once_in_order fns s)))),
      snd (invoke_each_once_in_order fns s))"
    by (rule runValidations_no_throw)
  moreover from pass have "filter isNotNil (map projr (fst (invoke_each_once_in_order fns s))) = []"
    by (auto simp: filter_empty_conv isNotNil_Undefined)
  ultimately show "runValidations fns s = (Inr [], snd (invoke_each_once_in_order fns s))" by simp
qed

theorem runValidations_all_pass_witness:
  "runValidations ([] :: unit check list) () = (Inr [], ())
   \<and> runValidations
       [validateEmail (CellString (str ''a@b.com'')), validateRegex regex_alphanumeric (CellString (str ''AB12'')),
        \<lambda>n. (Inr (Primitive Undefined), n + 1)] (0::nat)
     = (Inr [], 1)"
  using runValidations_all_pass [of "()" "[]" ]
    runValidations_all_pass [of "0::nat"
       "[validateEmail (CellString (str ''a@b.com'')), validateRegex regex_alphanumeric (CellString (str ''AB12'')),
        \<lambda>n. (Inr (Primitive Undefined), n + 1)]"]
  by (simp add: validateEmail_string validateRegex_iff test_regex_alphanumeric alphanumeric_def str_def)

section \<open>Properties of the validators\<close>

text \<open>
  C4. The check of the email validator returns nothing for \<open>"a@b.com"\<close>; for a
  string without the character \<open>@\<close>, such as \<open>"abc"\<close>, it returns the \<open>Message\<close>
  with text \<open>Invalid email address.\<close>, kind \<open>error\<close> and stage \<open>validate\<close>. The
  \<open>validate\<close> hook of the field \<open>EmailAddress\<close> returns the empty array and the array
  of that one \<open>Message\<close>.
\<close>

theorem validateEmail_contains_at:
  "validateEmail (CellString (str ''a@b.com'')) s = (Inr (Primitive Undefined), s)
   \<and> validateEmail (CellString (str ''abc'')) s =
       (Inr (Object (MessageObject
          \<lparr>msg_text = ''Invalid email address.'', msg_kind = ''error'', msg_stage = ''validate''\<rparr>)), s)
   \<and> (of_char CHR ''@'' \<notin> set v \<longrightarrow>
        validateEmail (CellString v) s =
          (Inr (Object (MessageObject
             \<lparr>msg_text = ''Invalid email address.'', msg_kind = ''error'', msg_stage = ''validate''\<rparr>)), s))
   \<and> field_validate (Employees c t) ''EmailAddress'' (CellString (str ''a@b.com'')) s = Some (Inr [], s)
   \<and> (of_char CHR ''@'' \<notin> set v \<longrightarrow>
        field_validate (Employees c t) ''EmailAddress'' (CellString v) s =
          Some (Inr [Object (MessageObject
             \<lparr>msg_text = ''Invalid email address.'', msg_kind = ''error'', msg_stage = ''validate''\<rparr>)], s))"
  by (simp add: Employees_hooks runValidations_def validateEmail_string Message_def str_def
      isNotNil_Object isNotNil_Undefined)

theorem validateEmail_contains_at_witness:
  "of_char CHR ''@'' \<notin> set (str ''first.last'')
   \<and> validateEmail (CellString (str ''first.last'')) () =
       (Inr (Object (MessageObject
          \<lparr>msg_text = ''Invalid email address.'', msg_kind = ''error'', msg_stage = ''validate''\<rparr>)), ())"
  using validateEmail_contains_at [of "()" "str ''first.last''"]
  by (simp add: str_def)

text \<open>
  C5 (as amended). The check of the pattern validator with \<open>/^.{8,72}$/\<close>, the
  expression of the field \<open>Password\<close>, returns nothing exactly for the strings of 8
  to 72 code units that hold no line terminator: it fails every string of 7 and of 73
  code units, and passes every string of 8 and of 72 code units without a line
  terminator. With \<open>/^[a-zA-Z0-9]+$/\<close>, the expression of the fields \<open>PayrollId\<close>,
  \<open>SINNumber\<close> and \<open>CertificationNumber\<close>, it passes \<open>"AB12"\<close> and fails
  \<open>"AB-12"\<close> and the empty string. Every failure is the \<open>Message\<close> with text
  \<open>Value does not meet required format.\<close>, kind \<open>error\<close> and stage \<open>validate\<close>.
\<close>

theorem validateRegex_patterns:
  "validateRegex regex_8_72 (CellString v) s =
     (if 8 \<le> length v \<and> length v \<le> 72 \<and> (\<forall>c\<in>set v. \<not> line_terminator c)
      then (Inr (Primitive Undefined), s)
      else (Inr (Object (MessageObject
              \<lparr>msg_text = ''Value does not meet required format.'', msg_kind = ''error'',
                msg_stage = ''validate''\<rparr>)), s))
   \<and> (length v = 7 \<or> length v = 73 \<longrightarrow>
        validateRegex regex_8_72 (CellString v) s =
          (Inr (Object (MessageObject
              \<lparr>msg_text = ''Value does not meet required format.'', msg_kind = ''error'',
                msg_stage = ''validate''\<rparr>)), s))
   \<and> ((length v = 8 \<or> length v = 72) \<and> (\<forall>c\<in>set v. \<not> line_terminator c) \<longrightarrow>
        validateRegex regex_8_72 (CellString v) s = (Inr (Primitive Undefined), s))
   \<and> validateRegex regex_alphanumeric (CellString (str ''AB12'')) s = (Inr (Primitive Undefined), s)
   \<and> validateRegex regex_alphanumeric (CellString (str ''AB-12'')) s =
       (Inr (Object (MessageObject
          \<lparr>msg_text = ''Value does not meet required format.'', msg_kind = ''error'',
            msg_stage = ''validate''\<rparr>)), s)
   \<and> validateRegex regex_alphanumeric (CellString (str '''')) s =
       (Inr (Object (MessageObject
          \<lparr>msg_text = ''Value does not meet required format.'', msg_kind = ''error'',
            msg_stage = ''validate''\<rparr>)), s)
   \<and> field_validate (Employees c t) ''Password'' x s
       = Some (runValidations [validateRegex regex_8_72 x] s)
   \<and> (\<forall>key\<in>{''PayrollId'', ''SINNumber'', ''CertificationNumber''}.
        field_validate (Employees c t) key x s
          = Some (runValidations [validateRegex regex_alphanumeric x] s))"
proof (intro conjI)
  show "validateRegex regex_8_72 (CellString v) s =
     (if 8 \<le> length v \<and> length v \<le> 72 \<and> (\<forall>c\<in>set v. \<not> line_terminator c)
      then (Inr (Primitive Undefined), s)
      else (Inr (Object (MessageObject
              \<lparr>msg_text = ''Value does not meet required format.'', msg_kind = ''error'',
                msg_stage = ''validate''\<rparr>)), s))"
    by (simp add: validateRegex_iff test_regex_8_72 Message_def)
  show "length v = 7 \<or> length v = 73 \<longrightarrow>
        validateRegex regex_8_72 (CellString v) s =
          (Inr (Object (MessageObject
              \<lparr>msg_text = ''Value does not meet required format.'', msg_kind = ''error'',
                msg_stage = ''validate''\<rparr>)), s)"
    by (auto simp: validateRegex_iff test_regex_8_72 Message_def)
  show "(length v = 8 \<or> length v = 72) \<and> (\<forall>c\<in>set v. \<not> line_terminator c) \<longrightarrow>
        validateRegex regex_8_72 (CellString v) s = (Inr (Primitive Undefined), s)"
    by (auto simp: validateRegex_iff test_regex_8_72)
  show "validateRegex regex_alphanumeric (CellString (str ''AB12'')) s = (Inr (Primitive Undefined), s)"
    by (simp add: validateRegex_iff test_regex_alphanumeric alphanumeric_def str_def)
  show "validateRegex regex_alphanumeric (CellString (str ''AB-12'')) s =
       (Inr (Object (MessageObject
          \<lparr>msg_text = ''Value does not meet required format.'', msg_kind = ''error'',
            msg_stage = ''validate''\<rparr>)), s)"
    by (simp add: validateRegex_iff test_regex_alphanumeric alphanumeric_def str_def Message_def)
  show "validateRegex regex_alphanumeric (CellString (str '''')) s =
       (Inr (Object (MessageObject
          \<lparr>msg_text = ''Value does not meet required format.'', msg_kind = ''error'',
            msg_stage = ''validate''\<rparr>)), s)"
    by (simp add: validateRegex_iff test_regex_alphanumeric str_def Message_def)
  show "field_validate (Employees c t) ''Password'' x s
       = Some (runValidations [validateRegex regex_8_72 x] s)"
    by (rule Employees_hooks)
  show "\<forall>key\<in>{''PayrollId'', ''SINNumber'', ''CertificationNumber''}.
        field_validate (Employees c t) key x s
          = Some (runValidations [validateRegex regex_alphanumeric x] s)"
    by (simp add: Employees_hooks)
qed

theorem validateRegex_patterns_witness:
  "length (str ''12345678'') = 8
   \<and> validateRegex regex_8_72 (CellString (str ''12345678'')) () = (Inr (Primitive Undefined), ())
   \<and> field_validate (Employees [] [] :: unit sheet) ''SINNumber'' (CellString (str ''AB-12'')) ()
       = Some (Inr [Object (MessageObject
          \<lparr>msg_text = ''Value does not meet required format.'', msg_kind = ''error'',
            msg_stage = ''validate''\<rparr>)], ())"
  using validateRegex_patterns [of "str ''12345678''" "()" "[]" "[]" "CellString (str ''AB-12'')"]
  by (simp add: str_def line_terminator_def runValidations_def isNotNil_Object)

text \<open>
  A string of 8 code units that holds a line feed fails: \<open>.\<close> does not match a line
  terminator.
\<close>

theorem validateRegex_patterns_counterexample:
  "length (str ''abcd'' @ [0x000A] @ str ''efg'') = 8
   \<and> validateRegex regex_8_72 (CellString (str ''abcd'' @ [0x000A] @ str ''efg'')) ()
       = (Inr (Object (MessageObject
          \<lparr>msg_text = ''Value does not meet required format.'', msg_kind = ''error'',
            msg_stage = ''validate''\<rparr>)), ())"
  by (simp add: validateRegex_iff test_regex_8_72 line_terminator_def str_def Message_def)

text \<open>
  C2 (as amended). The nil values are the empty string, \<open>null\<close> and \<open>undefined\<close>.
  For the empty string the check of the email validator returns the \<open>Message\<close>
  \<open>Invalid email address.\<close> and the check of the pattern validator, with either
  expression of the workbook, returns the \<open>Message\<close>
  \<open>Value does not meet required format.\<close>. For \<open>null\<close> and \<open>undefined\<close>, which
  the declared type \<open>string\<close> excludes, the check of the email validator throws a
  \<open>TypeError\<close>; the check of the pattern validator never throws and tests the
  expression against the text \<open>null\<close> or \<open>undefined\<close>, so that \<open>/^[a-zA-Z0-9]+$/\<close>
  passes both and \<open>/^.{8,72}$/\<close> fails \<open>null\<close> and passes \<open>undefined\<close>.
\<close>

theorem validators_on_nil:
  "isNil (cell_value v) = (v = CellString [] \<or> v = CellNull \<or> v = CellUndefined)
   \<and> validateEmail (CellString []) s =
       (Inr (Object (MessageObject
          \<lparr>msg_text = ''Invalid email address.'', msg_kind = ''error'', msg_stage = ''validate''\<rparr>)), s)
   \<and> validateRegex regex_8_72 (CellString []) s =
       (Inr (Object (MessageObject
          \<lparr>msg_text = ''Value does not meet required format.'', msg_kind = ''error'',
            msg_stage = ''validate''\<rparr>)), s)
   \<and> validateRegex regex_alphanumeric (CellString []) s =
       (Inr (Object (MessageObject
          \<lparr>msg_text = ''Value does not meet required format.'', msg_kind = ''error'',
            msg_stage = ''validate''\<rparr>)), s)
   \<and> validateEmail CellNull s = (Inl TypeError, s)
   \<and> validateEmail CellUndefined s = (Inl TypeError, s)
   \<and> validateRegex regex CellNull s = validateRegex regex (CellString (str ''null'')) s
   \<and> validateRegex regex CellUndefined s = validateRegex regex (CellString (str ''undefined'')) s
   \<and> \<not> isl (fst (validateRegex regex v s))
   \<and> validateRegex regex_alphanumeric CellNull s = (Inr (Primitive Undefined), s)
   \<and> validateRegex regex_alphanumeric CellUndefined s = (Inr (Primitive Undefined), s)
   \<and> validateRegex regex_8_72 CellUndefined s = (Inr (Primitive Undefined), s)
   \<and> validateRegex regex_8_72 CellNull s =
       (Inr (Object (MessageObject
          \<lparr>msg_text = ''Value does not meet required format.'', msg_kind = ''error'',
            msg_stage = ''validate''\<rparr>)), s)"
proof (intro conjI)
  show "isNil (cell_value v) = (v = CellString [] \<or> v = CellNull \<or> v = CellUndefined)"
    by (rule isNil_cell)
  show "validateEmail (CellString []) s =
       (Inr (Object (MessageObject
          \<lparr>msg_text = ''Invalid email address.'', msg_kind = ''error'', msg_stage = ''validate''\<rparr>)), s)"
    by (simp add: validateEmail_string Message_def)
  show "validateEmail CellNull s = (Inl TypeError, s)"
    by (simp add: validateEmail_def)
  show "validateEmail CellUndefined s = (Inl TypeError, s)"
    by (simp add: validateEmail_def)
  show "validateRegex regex CellNull s = validateRegex regex (CellString (str ''null'')) s"
    by (simp add: validateRegex_def)
  show "validateRegex regex CellUndefined s = validateRegex regex (CellString (str ''undefined'')) s"
    by (simp add: validateRegex_def)
  show "\<not> isl (fst (validateRegex regex v s))"
    by (simp add: validateRegex_iff)
  show "validateRegex regex_alphanumeric CellNull s = (Inr (Primitive Undefined), s)"
    by (simp add: validateRegex_iff test_regex_alphanumeric alphanumeric_def str_def)
  show "validateRegex regex_alphanumeric CellUndefined s = (Inr (Primitive Undefined), s)"
    by (simp add: validateRegex_iff test_regex_alphanumeric alphanumeric_def str_def)
  show "validateRegex regex_8_72 CellUndefined s = (Inr (Primitive Undefined), s)"
    by (simp add: validateRegex_iff test_regex_8_72 line_terminator_def str_def)
  show "validateRegex regex_8_72 (CellString []) s =
       (Inr (Object (MessageObject
          \<lparr>msg_text = ''Value does not meet required format.'', msg_kind = ''error'',
            msg_stage = ''validate''\<rparr>)), s)"
    by (simp add: validateRegex_iff test_regex_8_72 Message_def)
  show "validateRegex regex_alphanumeric (CellString []) s =
       (Inr (Object (MessageObject
          \<lparr>msg_text = ''Value does not meet required format.'', msg_kind = ''error'',
            msg_stage = ''validate''\<rparr>)), s)"
    by (simp add: validateRegex_iff test_regex_alphanumeric Message_def)
  show "validateRegex regex_8_72 CellNull s =
       (Inr (Object (MessageObject
          \<lparr>msg_text = ''Value does not meet required format.'', msg_kind = ''error'',
            msg_stage = ''validate''\<rparr>)), s)"
    by (simp add: validateRegex_iff test_regex_8_72 Message_def str_def)
qed

theorem validators_on_nil_witness:
  "isNil (cell_value CellNull)
   \<and> validateEmail CellNull () = (Inl TypeError, ())
   \<and> validateRegex regex_alphanumeric CellNull () = (Inr (Primitive Undefined), ())
   \<and> \<not> isl (fst (validateRegex regex_8_72 CellNull ()))"
  using validators_on_nil [where v = CellNull and s = "()" and regex = regex_8_72]
  by blast

text \<open>
  On the nil value \<open>null\<close> the check of the email validator throws, and the check
  of the pattern validator with \<open>/^[a-zA-Z0-9]+$/\<close> returns nothing.
\<close>

theorem validators_on_nil_counterexample:
  "isNil (cell_value CellNull)
   \<and> fst (validateEmail CellNull ()) = Inl TypeError
   \<and> fst (validateRegex regex_alphanumeric CellNull ()) = Inr (Primitive Undefined)"
  by (simp add: isNil_def isNull_def validateEmail_def validateRegex_iff
      test_regex_alphanumeric alphanumeric_def str_def)

section \<open>Properties of the workbook\<close>

text \<open>
  C3 (as amended). Every sheet of the workbook has at most one field with
  \<open>primary = true\<close>: the sheets Employees, Employee Roles and Associated Employees
  have exactly one (\<open>id\<close>, \<open>EmployeeId\<close> and \<open>ClientId\<close>), the sheets Employee
  Departments and Employee Groups have none.
\<close>

theorem primary_field_per_sheet:
  "map (\<lambda>(k, sh). (sheet_name sh, map fst (primary_fields sh))) (wb_sheets (basic c t)) =
     [(''Employees'', [''id'']),
      (''Employee Roles'', [''EmployeeId'']),
      (''Employee Departments'', []),
      (''Employee Groups'', []),
      (''Associated Employees'', [''ClientId''])]
   \<and> (\<forall>(k, sh)\<in>set (wb_sheets (basic c t)). length (primary_fields sh) \<le> 1)"
proof -
  have len: "length (primary_fields (Employees c t)) = 1"
    "length (primary_fields (EmployeeRoles :: 's sheet)) = 1"
    "length (primary_fields (AssociatedEmployees :: 's sheet)) = 1"
    by (simp_all only: length_map_fst primary_fields_of_sheets) simp_all
  show ?thesis
    by (simp add: basic_def primary_fields_of_sheets sheet_names len)
qed

theorem primary_field_per_sheet_witness:
  "length (primary_fields (Employees [(''CA'', ''Canada'')] [(''America/Toronto'', ''America/Toronto'')]
      :: unit sheet)) \<le> 1
   \<and> length (primary_fields (EmployeeGroups :: unit sheet)) \<le> 1"
proof -
  have "(''Employees'', Employees [(''CA'', ''Canada'')] [(''America/Toronto'', ''America/Toronto'')]
      :: unit sheet)
      \<in> set (wb_sheets (basic [(''CA'', ''Canada'')] [(''America/Toronto'', ''America/Toronto'')]))"
    by (simp add: basic_def)
  moreover have "(''EmployeeGroups'', EmployeeGroups :: unit sheet)
      \<in> set (wb_sheets (basic [(''CA'', ''Canada'')] [(''America/Toronto'', ''America/Toronto'')]))"
    by (simp add: basic_def)
  ultimately show ?thesis
    using primary_field_per_sheet [of "[(''CA'', ''Canada'')]" "[(''America/Toronto'', ''America/Toronto'')]"]
    by blast
qed

text \<open>The sheets Employee Departments and Employee Groups have no primary field.\<close>

theorem primary_field_per_sheet_counterexample:
  "sheet_name (EmployeeDepartments :: unit sheet) = ''Employee Departments''
   \<and> length (primary_fields (EmployeeDepartments :: unit sheet)) = 0
   \<and> sheet_name (EmployeeGroups :: unit sheet) = ''Employee Groups''
   \<and> length (primary_fields (EmployeeGroups :: unit sheet)) = 0"
  by (simp add: primary_fields_of_sheets sheet_names)

text \<open>
  C9. Every reference field of the workbook names, by \<open>sheetKey\<close> and \<open>foreignKey\<close>,
  a field that is primary or unique in its sheet: the field \<open>EmployeeId\<close> of the
  sheet Employee Roles is a reference to the field \<open>id\<close> of the sheet stored under
  \<open>Employees\<close>, whose name is \<open>Employees\<close>, and that field has \<open>primary = true\<close>
  and \<open>unique = true\<close>.
\<close>

theorem reference_targets_key:
  "(\<forall>(k, sh)\<in>set (wb_sheets (basic c t :: 's workbook)). \<forall>(n, f)\<in>set (sheet_fields sh).
      is_reference f \<longrightarrow>
        (case reference_target (basic c t) f of
           None \<Rightarrow> False
         | Some target \<Rightarrow> primary (config target) \<or> unique (config target)))
   \<and> (case field_of EmployeeRoles ''EmployeeId'' of
         None \<Rightarrow> False
       | Some f \<Rightarrow>
           is_reference f \<and> sheetKey (config f) = Some ''Employees''
           \<and> foreignKey (config f) = Some ''id''
           \<and> reference_target (basic c t) f = field_of (Employees c t) ''id'')
   \<and> map_of (wb_sheets (basic c t)) ''Employees'' = Some (Employees c t)
   \<and> sheet_name (Employees c t) = ''Employees''
   \<and> (case field_of (Employees c t) ''id'' of
         None \<Rightarrow> False
       | Some target \<Rightarrow> primary (config target) \<and> unique (config target))"
proof (intro conjI)
  show "\<forall>(k, sh)\<in>set (wb_sheets (basic c t)). \<forall>(n, f)\<in>set (sheet_fields sh).
      is_reference f \<longrightarrow>
        (case reference_target (basic c t) f of
           None \<Rightarrow> False
         | Some target \<Rightarrow> primary (config target) \<or> unique (config target))"
  proof (rule all_sheets_of_basic)
    show "\<forall>(n, f)\<in>set (sheet_fields (Employees c t)). is_reference f \<longrightarrow>
        (case reference_target (basic c t) f of
           None \<Rightarrow> False
         | Some target \<Rightarrow> primary (config target) \<or> unique (config target))"
      by (rule references_resolve)
    show "\<forall>(n, f)\<in>set (sheet_fields EmployeeRoles). is_reference f \<longrightarrow>
        (case reference_target (basic c t) f of
           None \<Rightarrow> False
         | Some target \<Rightarrow> primary (config target) \<or> unique (config target))"
      by (rule references_of_EmployeeRoles) (simp add: target_of_Employees_id field_of_Employees_id)
    show "\<forall>(n, f)\<in>set (sheet_fields EmployeeDepartments). is_reference f \<longrightarrow>
        (case reference_target (basic c t) f of
           None \<Rightarrow> False
         | Some target \<Rightarrow> primary (config target) \<or> unique (config target))"
      by (rule references_resolve)
    show "\<forall>(n, f)\<in>set (sheet_fields EmployeeGroups). is_reference f \<longrightarrow>
        (case reference_target (basic c t) f of
           None \<Rightarrow> False
         | Some target \<Rightarrow> primary (config target) \<or> unique (config target))"
      by (rule references_resolve)
    show "\<forall>(n, f)\<in>set (sheet_fields AssociatedEmployees). is_reference f \<longrightarrow>
        (case reference_target (basic c t) f of
           None \<Rightarrow> False
         | Some target \<Rightarrow> primary (config target) \<or> unique (config target))"
      by (rule references_resolve)
  qed
  show "case field_of EmployeeRoles ''EmployeeId'' of
         None \<Rightarrow> False
       | Some f \<Rightarrow>
           is_reference f \<and> sheetKey (config f) = Some ''Employees''
           \<and> foreignKey (config f) = Some ''id''
           \<and> reference_target (basic c t) f = field_of (Employees c t) ''id''"
    by (simp add: field_of_def EmployeeRoles_def target_of_Employees_id)
  show "map_of (wb_sheets (basic c t)) ''Employees'' = Some (Employees c t)"
    by (simp add: basic_def)
  show "sheet_name (Employees c t) = ''Employees''"
    by (rule sheet_names)
  show "case field_of (Employees c t) ''id'' of
         None \<Rightarrow> False
       | Some target \<Rightarrow> primary (config target) \<and> unique (config target)"
    by (simp add: field_of_Employees_id)
qed

theorem reference_targets_key_witness:
  "is_reference (the (field_of (EmployeeRoles :: unit sheet) ''EmployeeId''))
   \<and> (case reference_target (basic [] []) (the (field_of (EmployeeRoles :: unit sheet) ''EmployeeId'')) of
         None \<Rightarrow> False
       | Some target \<Rightarrow> primary (config target) \<or> unique (config target))"
proof -
  have "(''EmployeeRoles'', EmployeeRoles :: unit sheet) \<in> set (wb_sheets (basic [] []))"
    by (simp add: basic_def)
  moreover have "(''EmployeeId'', the (field_of (EmployeeRoles :: unit sheet) ''EmployeeId''))
      \<in> set (sheet_fields EmployeeRoles)"
    by (simp add: field_of_def EmployeeRoles_def)
  moreover have "is_reference (the (field_of (EmployeeRoles :: unit sheet) ''EmployeeId''))"
    by (simp add: field_of_def EmployeeRoles_def)
  ultimately show ?thesis
    using reference_targets_key [of "[]" "[]"] by blast
qed

text \<open>
  C10. Every field of every sheet of the workbook has \<open>mapping\<close>, \<open>review\<close> and
  \<open>export\<close> set in its \<open>stageVisibility\<close>; the five sheets hold 45, 2, 2, 2 and 3
  fields, and \<open>basic\<close> is the only workbook of the exported configuration.
\<close>

theorem every_field_visible:
  "(\<forall>(k, sh)\<in>set (wb_sheets (basic c t)). \<forall>(n, f)\<in>set (sheet_fields sh).
       mapping (stageVisibility (config f)) \<and> review (stageVisibility (config f))
       \<and> export (stageVisibility (config f)))
   \<and> map (\<lambda>(k, sh). length (sheet_fields sh)) (wb_sheets (basic c t)) = [45, 2, 2, 2, 3]
   \<and> map fst (workbookConfigs (default_export c t)) = [''basic'']"
proof -
  have "\<forall>(k, sh)\<in>set (wb_sheets (basic c t)). list_all (\<lambda>(k, f). visible_at_every_stage f) (sheet_fields sh)"
    by (simp add: basic_def Employees_visible other_sheets_visible)
  then have "\<forall>(k, sh)\<in>set (wb_sheets (basic c t)). \<forall>(n, f)\<in>set (sheet_fields sh).
       mapping (stageVisibility (config f)) \<and> review (stageVisibility (config f))
       \<and> export (stageVisibility (config f))"
    by (fastforce simp: list_all_iff visible_at_every_stage_def)
  moreover have "map (\<lambda>(k, sh). length (sheet_fields sh)) (wb_sheets (basic c t)) = [45, 2, 2, 2, 3]"
    by (simp add: basic_def Employees_visible other_sheets_visible)
  moreover have "map fst (workbookConfigs (default_export c t)) = [''basic'']"
    by (simp add: default_export_def)
  ultimately show ?thesis by blast
qed

theorem every_field_visible_witness:
  "export (stageVisibility (config (the (field_of (Employees [] [] :: unit sheet) ''Timezone''))))"
proof -
  have "(''Employees'', Employees [] [] :: unit sheet) \<in> set (wb_sheets (basic [] []))"
    by (simp add: basic_def)
  moreover have "(''Timezone'', the (field_of (Employees [] [] :: unit sheet) ''Timezone''))
      \<in> set (sheet_fields (Employees [] []))"
    by (simp add: field_of_def Employees_def)
  ultimately show ?thesis
    using every_field_visible [of "[]" "[]"] by blast
qed

end
